theory Spec2Isabelle
  imports Complex_Main "HOL-Library.AList"
begin

section \<open>South Pole logistics emissions calculator\<close>

text \<open>
  A shallow embedding of \<^verbatim>\<open>src/argonne_final/south_pole_traverse.py\<close>.

  Numbers. The module computes with Python numbers (ints and floats mixed). They are
  modelled as exact reals: \<open>+\<close>, \<open>*\<close> and \<open>/\<close> are the field operations, so the
  rounding of IEEE doubles is not part of the model. Python's \<^verbatim>\<open>a / b\<close> raises
  \<^verbatim>\<open>ZeroDivisionError\<close> when \<open>b\<close> is zero, for ints and floats alike; that is kept
  (\<open>py_div\<close>). A division by a non-zero literal cannot raise and is written \<open>/\<close>.
  The leg calculators are modelled a second time over floats with a range (\<open>pyfloat\<close>),
  where a result too large for a double is an infinity and \<open>inf * 0\<close> is NaN; the
  statement about the sign of their results is made on that model.

  Dictionaries. A Python dict keeps its keys in insertion order and has no duplicate
  keys. It is modelled as an association list; \<^verbatim>\<open>d[k] = v\<close> is \<open>AList.update k v d\<close>
  (the value is replaced in place when \<open>k\<close> is there, and appended otherwise, as in
  Python), and \<^verbatim>\<open>d[k]\<close> is \<open>subscript d k\<close>, which raises \<^verbatim>\<open>KeyError\<close> on a
  missing key.
\<close>

subsection \<open>Python values and errors\<close>

datatype py_error = KeyError | ZeroDivisionError

type_synonym dict = "(string \<times> real) list"

definition is_dict :: "(string \<times> 'v) list \<Rightarrow> bool" where
  "is_dict d = distinct (map fst d)"

definition keys :: "(string \<times> 'v) list \<Rightarrow> string set" where
  "keys d = fst ` set d"

definition subscript :: "(string \<times> 'v) list \<Rightarrow> string \<Rightarrow> py_error + 'v" where
  "subscript d k = (case map_of d k of None \<Rightarrow> Inl KeyError | Some v \<Rightarrow> Inr v)"

definition py_div :: "real \<Rightarrow> real \<Rightarrow> py_error + real" where
  "py_div a b = (if b = 0 then Inl ZeroDivisionError else Inr (a / b))"

text \<open>The three tracked gases.\<close>

definition pollutants :: "string set" where
  "pollutants = {''CO2'', ''CH4'', ''N2O''}"

subsection \<open>Leg emission calculators\<close>

text \<open>
  \<^verbatim>\<open>calculate_truck_emissions(miles, cargo_weight_in_tons, quantity)\<close>: the loop over
  \<^verbatim>\<open>emissions_factors_truck.items()\<close> stores one entry per factor into the dict
  \<^verbatim>\<open>total_emissions\<close>, which starts empty.
\<close>

definition emissions_factors_truck :: dict where
  "emissions_factors_truck =
     [(''CO2'', 89.77044869), (''CH4'', 0.109408298), (''N2O'', 0.000355609)]"

definition calculate_truck_emissions :: "real \<Rightarrow> real \<Rightarrow> real \<Rightarrow> dict" where
  "calculate_truck_emissions miles cargo_weight_in_tons quantity =
     (let btu_per_gallon_diesel = 138700;
          energy_intensity_truck_origin_to_destination = 684;
          btu_per_mile_empty = 13567;
          btu_per_mile_truck_origin_to_destination =
            energy_intensity_truck_origin_to_destination * cargo_weight_in_tons;
          gallons_per_mile_truck_origin_to_destination =
            btu_per_mile_truck_origin_to_destination / btu_per_gallon_diesel;
          gallons_per_mile_empty = btu_per_mile_empty / btu_per_gallon_diesel
      in fold (\<lambda>(emission, factor) total_emissions.
                 let emissions_origin_to_destination =
                       factor * gallons_per_mile_truck_origin_to_destination
                         * btu_per_gallon_diesel / 1000000 * miles;
                     emissions_empty_back =
                       factor * gallons_per_mile_empty * btu_per_gallon_diesel / 1000000 * miles
                 in AList.update emission
                      ((emissions_origin_to_destination + emissions_empty_back) * quantity)
                      total_emissions)
              emissions_factors_truck [])"

text \<open>\<^verbatim>\<open>calculate_tanker_emissions(miles, cargo_weight, number_of_tankers)\<close>.\<close>

definition emissions_factors_tanker :: dict where
  "emissions_factors_tanker =
     [(''CO2'', 262.9991694), (''CH4'', 0.293135661), (''N2O'', 0.006037729)]"

definition calculate_tanker_emissions :: "real \<Rightarrow> real \<Rightarrow> real \<Rightarrow> dict" where
  "calculate_tanker_emissions miles cargo_weight number_of_tankers =
     (let btu_per_gallon_residual_oil = 149700;
          energy_intensity_tanker_origin_to_destination = 43;
          load_factor_tanker_back_haul = 0.70;
          hp_tanker = 19170;
          average_speed_tanker = 20;
          energy_consumption_tanker = 5439;
          btu_per_mile_tanker_origin_to_destination =
            energy_intensity_tanker_origin_to_destination * cargo_weight;
          btu_per_mile_tanker_back_haul =
            (energy_consumption_tanker * hp_tanker * load_factor_tanker_back_haul)
              / average_speed_tanker;
          gallons_per_mile_tanker_origin_to_destination =
            btu_per_mile_tanker_origin_to_destination / btu_per_gallon_residual_oil;
          gallons_per_mile_tanker_back_haul =
            btu_per_mile_tanker_back_haul / btu_per_gallon_residual_oil
      in fold (\<lambda>(pollutant, factor) total_emissions.
                 let emissions_origin_to_destination =
                       factor * gallons_per_mile_tanker_origin_to_destination
                         * btu_per_gallon_residual_oil / 1000000 * miles;
                     emissions_back_haul =
                       factor * gallons_per_mile_tanker_back_haul
                         * btu_per_gallon_residual_oil / 1000000 * miles
                 in AList.update pollutant
                      ((emissions_origin_to_destination + emissions_back_haul) * number_of_tankers)
                      total_emissions)
              emissions_factors_tanker [])"

text \<open>
  \<^verbatim>\<open>calculate_fuelused_emissions(miles_ocean_tanker, miles_truck)\<close>. The loop runs over
  the keys of \<^verbatim>\<open>combined_emissions\<close> and reads the two nested factor tables by
  subscript; a missing key there would raise, so the model returns a result or an error.
\<close>

definition emissions_factors_diesel :: dict where
  "emissions_factors_diesel = [(''CO2'', 12747.98), (''CH4'', 109.519), (''N2O'', 0.233)]"

definition emissions_factors_resid :: dict where
  "emissions_factors_resid = [(''CO2'', 9670.93), (''CH4'', 100.419), (''N2O'', 0.162)]"

definition emissions_factors :: "(string \<times> dict) list" where
  "emissions_factors = [(''diesel'', emissions_factors_diesel), (''resid'', emissions_factors_resid)]"

fun fuelused_loop :: "real \<Rightarrow> real \<Rightarrow> string list \<Rightarrow> dict \<Rightarrow> py_error + dict" where
  "fuelused_loop mmBtu_tanker mmBtu_truck [] combined_emissions = Inr combined_emissions"
| "fuelused_loop mmBtu_tanker mmBtu_truck (pollutant # rest) combined_emissions =
     (case subscript emissions_factors ''resid'' of Inl e \<Rightarrow> Inl e | Inr resid \<Rightarrow>
     (case subscript resid pollutant of Inl e \<Rightarrow> Inl e | Inr f_resid \<Rightarrow>
     (case subscript emissions_factors ''diesel'' of Inl e \<Rightarrow> Inl e | Inr diesel \<Rightarrow>
     (case subscript diesel pollutant of Inl e \<Rightarrow> Inl e | Inr f_diesel \<Rightarrow>
        fuelused_loop mmBtu_tanker mmBtu_truck rest
          (AList.update pollutant (mmBtu_tanker * f_resid + mmBtu_truck * f_diesel)
             combined_emissions)))))"

definition calculate_fuelused_emissions :: "real \<Rightarrow> real \<Rightarrow> py_error + dict" where
  "calculate_fuelused_emissions miles_ocean_tanker miles_truck =
     (let btu_per_gallon_diesel = 138700;
          btu_per_gallon_resid = 149700;
          energy_consumption_btu_hphr = 5439;
          engine_efficiency = 0.50;
          average_speed_mph_tanker = 20;
          mpg_truck = 5.6;
          gallons_per_hour_per_hp_tanker =
            energy_consumption_btu_hphr / (btu_per_gallon_resid * engine_efficiency);
          mpg_tanker = average_speed_mph_tanker / gallons_per_hour_per_hp_tanker;
          gallons_per_mile_tanker = 1.0 / mpg_tanker;
          gallons_per_mile_truck = 1.0 / mpg_truck;
          total_fuel_consumption_tanker = miles_ocean_tanker * gallons_per_mile_tanker;
          total_fuel_consumption_truck = miles_truck * gallons_per_mile_truck;
          total_fuel_consumption_mmBtu_tanker =
            total_fuel_consumption_tanker * btu_per_gallon_resid / 1000000;
          total_fuel_consumption_mmBtu_truck =
            total_fuel_consumption_truck * btu_per_gallon_diesel / 1000000;
          combined_emissions = [(''CO2'', 0), (''CH4'', 0), (''N2O'', 0)]
      in fuelused_loop total_fuel_consumption_mmBtu_tanker total_fuel_consumption_mmBtu_truck
           (map fst combined_emissions) combined_emissions)"

text \<open>\<^verbatim>\<open>calculate_emissions_from_diesel(gallons_diesel)\<close>: a dict comprehension.\<close>

definition calculate_emissions_from_diesel :: "real \<Rightarrow> dict" where
  "calculate_emissions_from_diesel gallons_diesel =
     (let btu_per_gallon_diesel = 138700;
          total_energy_mmBtu = gallons_diesel * btu_per_gallon_diesel / 1000000
      in fold (\<lambda>(pollutant, factor) d. AList.update pollutant (total_energy_mmBtu * factor) d)
           emissions_factors_diesel [])"

text \<open>
  \<^verbatim>\<open>embodied_renewable_emissions(target_solar, target_wind, target_bess_energy, target_diesel)\<close>
  returns a dict whose values are bare numbers for bess, solar and wind, and a dict for
  diesel. A value of that dict is therefore a tagged variant; Python's
  \<^verbatim>\<open>isinstance(value, dict)\<close> is the test for the constructor \<open>Record\<close>.
\<close>

datatype emission_value = Scalar real | Record dict

definition embodied_renewable_emissions ::
  "real \<Rightarrow> real \<Rightarrow> real \<Rightarrow> real \<Rightarrow> (string \<times> emission_value) list" where
  "embodied_renewable_emissions target_solar target_wind target_bess_energy target_diesel =
     (let emissions_factor_bess = 220000;
          emissions_factor_solar = 1100000;
          emissions_factor_wind = 683700;
          embodied_emissions_bess = target_bess_energy * emissions_factor_bess;
          embodied_emissions_solar = target_solar * emissions_factor_solar;
          embodied_emissions_wind = target_wind * emissions_factor_wind;
          embodied_emissions_diesel = calculate_emissions_from_diesel target_diesel;
          embodied_emissions_diesel' =
            fold (\<lambda>(pollutant, total) d. AList.update pollutant total d) embodied_emissions_diesel []
      in [(''bess'', Scalar embodied_emissions_bess),
          (''solar'', Scalar embodied_emissions_solar),
          (''wind'', Scalar embodied_emissions_wind),
          (''diesel'', Record embodied_emissions_diesel')])"

subsection \<open>Emission aggregators\<close>

text \<open>
  \<^verbatim>\<open>sum_emissions(*emission_dicts)\<close>. The body of the inner loop tests
  \<^verbatim>\<open>pollutant in total_emissions\<close> and then either adds to the stored amount or stores
  the amount; \<open>add_amount\<close> is that body.
\<close>

definition add_amount :: "string \<times> real \<Rightarrow> dict \<Rightarrow> dict" where
  "add_amount = (\<lambda>(pollutant, amount) total_emissions.
     case map_of total_emissions pollutant of
       Some v \<Rightarrow> AList.update pollutant (v + amount) total_emissions
     | None \<Rightarrow> AList.update pollutant amount total_emissions)"

definition sum_emissions :: "dict list \<Rightarrow> dict" where
  "sum_emissions emission_dicts =
     fold (\<lambda>emissions total_emissions. fold add_amount emissions total_emissions)
       emission_dicts []"

text \<open>
  The same function over an explicit store of dict objects, to speak about mutation. A
  store is the list of the dict objects that exist; a reference is an index into it. The
  arguments are references; \<^verbatim>\<open>total_emissions = {}\<close> allocates a new object at the
  end of the store; every assignment of the loop writes to that object, and every read of
  \<^verbatim>\<open>emissions.items()\<close> reads the store as it is at that moment.
\<close>

type_synonym store = "dict list"

definition sum_emissions_store :: "store \<Rightarrow> nat list \<Rightarrow> store \<times> nat" where
  "sum_emissions_store s emission_dicts =
     (let total_emissions = length s
      in (fold (\<lambda>emissions s'.
                  fold (\<lambda>item s''. s''[total_emissions := add_amount item (s'' ! total_emissions)])
                    (s' ! emissions) s')
            emission_dicts (s @ [[]]),
          total_emissions))"

text \<open>\<^verbatim>\<open>calculate_co2_equivalent(emissions_dictionary)\<close>: three subscripts, in this order.\<close>

definition calculate_co2_equivalent :: "dict \<Rightarrow> py_error + real" where
  "calculate_co2_equivalent emissions_dictionary =
     (case subscript emissions_dictionary ''CO2'' of Inl e \<Rightarrow> Inl e | Inr co2 \<Rightarrow>
     (case subscript emissions_dictionary ''CH4'' of Inl e \<Rightarrow> Inl e | Inr ch4 \<Rightarrow>
     (case subscript emissions_dictionary ''N2O'' of Inl e \<Rightarrow> Inl e | Inr n2o \<Rightarrow>
        (let co2_eq_co2 = co2 * 1;
             co2_eq_ch4 = ch4 * 29.8;
             co2_eq_n2o = n2o * 273
         in Inr (co2_eq_co2 + co2_eq_ch4 + co2_eq_n2o)))))"

text \<open>
  \<^verbatim>\<open>consolidate_scenario_emissions(transport_emissions, additional_emissions)\<close>.
  \<^verbatim>\<open>total_emissions[pollutant] += amount\<close> reads the entry first, so it raises
  \<^verbatim>\<open>KeyError\<close> when \<open>pollutant\<close> is not a key of \<open>total_emissions\<close>
  (\<open>add_to\<close>). The loops stop at the first error.
\<close>

definition add_to :: "dict \<Rightarrow> string \<Rightarrow> real \<Rightarrow> py_error + dict" where
  "add_to total_emissions pollutant amount =
     (case subscript total_emissions pollutant of
        Inl e \<Rightarrow> Inl e
      | Inr v \<Rightarrow> Inr (AList.update pollutant (v + amount) total_emissions))"

fun add_record :: "dict \<Rightarrow> dict \<Rightarrow> py_error + dict" where
  "add_record total_emissions [] = Inr total_emissions"
| "add_record total_emissions ((pollutant, amount) # items) =
     (case add_to total_emissions pollutant amount of
        Inl e \<Rightarrow> Inl e
      | Inr total_emissions' \<Rightarrow> add_record total_emissions' items)"

fun add_units :: "dict \<Rightarrow> dict list \<Rightarrow> py_error + dict" where
  "add_units total_emissions [] = Inr total_emissions"
| "add_units total_emissions (unit_emissions # units) =
     (case add_record total_emissions unit_emissions of
        Inl e \<Rightarrow> Inl e
      | Inr total_emissions' \<Rightarrow> add_units total_emissions' units)"

fun add_additional :: "dict \<Rightarrow> (string \<times> emission_value) list \<Rightarrow> py_error + dict" where
  "add_additional total_emissions [] = Inr total_emissions"
| "add_additional total_emissions ((key, Record d) # rest) =
     (case add_record total_emissions d of
        Inl e \<Rightarrow> Inl e
      | Inr total_emissions' \<Rightarrow> add_additional total_emissions' rest)"
| "add_additional total_emissions ((key, Scalar v) # rest) =
     (case add_to total_emissions ''CO2'' v of
        Inl e \<Rightarrow> Inl e
      | Inr total_emissions' \<Rightarrow> add_additional total_emissions' rest)"

definition consolidate_scenario_emissions ::
  "(string \<times> dict) list \<Rightarrow> (string \<times> emission_value) list \<Rightarrow> py_error + dict" where
  "consolidate_scenario_emissions transport_emissions additional_emissions =
     (case add_units [(''CO2'', 0), (''CH4'', 0), (''N2O'', 0)] (map snd transport_emissions) of
        Inl e \<Rightarrow> Inl e
      | Inr total_emissions \<Rightarrow> add_additional total_emissions additional_emissions)"

subsection \<open>Scenario composer\<close>

text \<open>
  \<^verbatim>\<open>transportation_scenario_emissions\<close>. Three divisions have a divisor that depends on
  the arguments: \<^verbatim>\<open>target_wind / turbine_power\<close>,
  \<^verbatim>\<open>total_weight_turbines / (num_turbines * 7)\<close> and
  \<^verbatim>\<open>total_weight_bess_tons / num_bess_units\<close>. They are evaluated in this order, the
  second and third while the arguments of the wind and of the BESS \<^verbatim>\<open>sum_emissions\<close>
  call are computed. The parameter \<^verbatim>\<open>target_bess_power\<close> is not used.
\<close>

definition transportation_scenario_emissions ::
  "real \<Rightarrow> real \<Rightarrow> real \<Rightarrow> real \<Rightarrow> real \<Rightarrow> real \<Rightarrow> py_error + (string \<times> dict) list" where
  "transportation_scenario_emissions target_solar turbine_power target_wind target_bess_power
       target_bess_energy target_diesel =
     (let pv_g_kw = 160;
          bess_container_weight_kg = 18000;
          bess_energy_capacity_kwh = 1240;
          nps_100c_24_weight = 19.8
      in case py_div target_wind turbine_power of Inl e \<Rightarrow> Inl e | Inr num_turbines \<Rightarrow>
        (let total_weight_turbines = num_turbines * nps_100c_24_weight;
             total_grams_pv = target_solar * pv_g_kw;
             total_tons_pv = total_grams_pv / 907185;
             num_bess_units = target_bess_energy / bess_energy_capacity_kwh;
             total_weight_bess_tons = num_bess_units * (bess_container_weight_kg / 1000);
             total_weight_diesel_tons = (target_diesel * 6.5) / 2000
         in case py_div total_weight_turbines (num_turbines * 7) of Inl e \<Rightarrow> Inl e
            | Inr turbine_cargo \<Rightarrow>
           (let wind_trip_emissions = sum_emissions
                  [calculate_tanker_emissions 6900 total_weight_turbines 1,
                   calculate_tanker_emissions 2415 (total_weight_turbines / 2) 2,
                   calculate_truck_emissions 1030 turbine_cargo (num_turbines * 7)];
                pv_trip_emissions = sum_emissions
                  [calculate_tanker_emissions 6900 total_tons_pv 1,
                   calculate_tanker_emissions 2415 (total_tons_pv / 2) 2,
                   calculate_truck_emissions 1030 (total_tons_pv / 9) 9]
            in case py_div total_weight_bess_tons num_bess_units of Inl e \<Rightarrow> Inl e
               | Inr bess_cargo \<Rightarrow>
              (let bess_trip_emissions = sum_emissions
                     [calculate_tanker_emissions 6900 total_weight_bess_tons 1,
                      calculate_tanker_emissions 2415 (total_weight_bess_tons / 2) 2,
                      calculate_truck_emissions 100 bess_cargo num_bess_units];
                   diesel_trip_emissions = sum_emissions
                     [calculate_tanker_emissions 6900 total_weight_diesel_tons 1,
                      calculate_tanker_emissions 2415 (total_weight_diesel_tons / 2) 2,
                      calculate_truck_emissions 1030 (total_weight_diesel_tons / 9) 9]
               in Inr [(''wind_turbines_transport'', wind_trip_emissions),
                       (''pv_panels_transport'', pv_trip_emissions),
                       (''bess_units_transport'', bess_trip_emissions),
                       (''diesel_transport'', diesel_trip_emissions)]))))"

subsection \<open>Leg emission calculators over floats with a range\<close>

text \<open>
  A Python float is a finite number, \<^verbatim>\<open>inf\<close>, \<^verbatim>\<open>-inf\<close> or \<^verbatim>\<open>nan\<close>. The result of an
  operation on finite numbers is its exact value \<open>x\<close> brought into the range of a double
  (\<open>fl\<close>): from \<open>2\<^sup>1\<^sup>0\<^sup>2\<^sup>4 - 2\<^sup>9\<^sup>7\<^sup>0\<close> on, round-to-nearest gives an infinity; up to
  \<open>2\<^sup>-\<^sup>1\<^sup>0\<^sup>7\<^sup>5\<close> in magnitude it gives zero. Between the two the value is kept exact: the
  rounding to 53 bits is not modelled, and neither is the sign of a zero. Operations on
  infinities and NaN follow IEEE 754 (\<open>inf * 0\<close> and \<open>inf - inf\<close> are NaN, NaN propagates).
  The arguments of the calculators are taken to be floats. Every division of the
  calculators is by a positive literal or by a value computed from positive literals
  alone (\<open>div_lit\<close>), so none can raise.
\<close>

datatype pyfloat = Fin real | PInf | NInf | NaN

type_synonym fdict = "(string \<times> pyfloat) list"

definition overflow_threshold :: real where
  "overflow_threshold = 2 ^ 1024 - 2 ^ 970"

definition underflow_threshold :: real where
  "underflow_threshold = 1 / 2 ^ 1075"

definition fl :: "real \<Rightarrow> pyfloat" where
  "fl x = (if overflow_threshold \<le> x then PInf
           else if x \<le> - overflow_threshold then NInf
           else if \<bar>x\<bar> \<le> underflow_threshold then Fin 0
           else Fin x)"

fun fmul :: "pyfloat \<Rightarrow> pyfloat \<Rightarrow> pyfloat" where
  "fmul NaN y = NaN"
| "fmul x NaN = NaN"
| "fmul (Fin a) (Fin b) = fl (a * b)"
| "fmul (Fin a) PInf = (if a = 0 then NaN else if 0 < a then PInf else NInf)"
| "fmul (Fin a) NInf = (if a = 0 then NaN else if 0 < a then NInf else PInf)"
| "fmul PInf (Fin b) = (if b = 0 then NaN else if 0 < b then PInf else NInf)"
| "fmul NInf (Fin b) = (if b = 0 then NaN else if 0 < b then NInf else PInf)"
| "fmul PInf PInf = PInf"
| "fmul PInf NInf = NInf"
| "fmul NInf PInf = NInf"
| "fmul NInf NInf = PInf"

fun fadd :: "pyfloat \<Rightarrow> pyfloat \<Rightarrow> pyfloat" where
  "fadd NaN y = NaN"
| "fadd x NaN = NaN"
| "fadd (Fin a) (Fin b) = fl (a + b)"
| "fadd (Fin a) PInf = PInf"
| "fadd (Fin a) NInf = NInf"
| "fadd PInf (Fin b) = PInf"
| "fadd NInf (Fin b) = NInf"
| "fadd PInf PInf = PInf"
| "fadd PInf NInf = NaN"
| "fadd NInf PInf = NaN"
| "fadd NInf NInf = NInf"

fun div_lit :: "pyfloat \<Rightarrow> real \<Rightarrow> pyfloat" where
  "div_lit (Fin a) c = fl (a / c)"
| "div_lit PInf c = PInf"
| "div_lit NInf c = NInf"
| "div_lit NaN c = NaN"

text \<open>
  The bodies of the two loops (lines 101 to 105 of the truck calculator and 201 to 203 of
  the tanker calculator) are the same expression up to the fuel's energy density:
  \<^verbatim>\<open>(factor * gpm_loaded * btu / 1e6 * miles + factor * gpm_empty * btu / 1e6 * miles) * count\<close>.
\<close>

definition leg_total_fp ::
  "real \<Rightarrow> pyfloat \<Rightarrow> pyfloat \<Rightarrow> pyfloat \<Rightarrow> pyfloat \<Rightarrow> real \<Rightarrow> pyfloat" where
  "leg_total_fp btu_per_gallon gallons_per_mile_loaded gallons_per_mile_empty miles count factor =
     (let emissions_loaded =
            fmul (div_lit (fmul (fmul (Fin factor) gallons_per_mile_loaded) (Fin btu_per_gallon))
                    1000000) miles;
          emissions_empty =
            fmul (div_lit (fmul (fmul (Fin factor) gallons_per_mile_empty) (Fin btu_per_gallon))
                    1000000) miles
      in fmul (fadd emissions_loaded emissions_empty) count)"

definition calculate_truck_emissions_fp :: "pyfloat \<Rightarrow> pyfloat \<Rightarrow> pyfloat \<Rightarrow> fdict" where
  "calculate_truck_emissions_fp miles cargo_weight_in_tons quantity =
     (let btu_per_gallon_diesel = 138700;
          btu_per_mile_truck_origin_to_destination = fmul (Fin 684) cargo_weight_in_tons;
          gallons_per_mile_truck_origin_to_destination =
            div_lit btu_per_mile_truck_origin_to_destination btu_per_gallon_diesel;
          gallons_per_mile_empty = div_lit (Fin 13567) btu_per_gallon_diesel
      in fold (\<lambda>(emission, factor) total_emissions.
                 AList.update emission
                   (leg_total_fp btu_per_gallon_diesel gallons_per_mile_truck_origin_to_destination
                      gallons_per_mile_empty miles quantity factor)
                   total_emissions)
              emissions_factors_truck [])"









subsection \<open>Vocabulary of the statements\<close>

text \<open>
  What a record contributes to a pollutant: its amount under that key, and nothing when
  the key is absent. What a value of the additional mapping contributes: a nested record
  contributes pollutant-wise, a bare number contributes itself to CO2 and nothing to the
  other gases. These two functions are used to state properties only; no model of the
  code refers to them.
\<close>

definition contribution :: "dict \<Rightarrow> string \<Rightarrow> real" where
  "contribution d p = (case map_of d p of None \<Rightarrow> 0 | Some v \<Rightarrow> v)"

fun pollutant_wise :: "emission_value \<Rightarrow> string \<Rightarrow> real" where
  "pollutant_wise (Record d) p = contribution d p"
| "pollutant_wise (Scalar x) p = (if p = ''CO2'' then x else 0)"

section \<open>Properties of the leg calculators\<close>

text \<open>Each calculator in closed form: the loops unrolled over the fixed factor tables.\<close>

lemma truck_closed:
  "calculate_truck_emissions m w q =
     [(''CO2'', 89.77044869 * (684 * w / 1000000 * m + 13567 / 1000000 * m) * q),
      (''CH4'', 0.109408298 * (684 * w / 1000000 * m + 13567 / 1000000 * m) * q),
      (''N2O'', 0.000355609 * (684 * w / 1000000 * m + 13567 / 1000000 * m) * q)]"
  by (simp add: calculate_truck_emissions_def emissions_factors_truck_def Let_def)

lemma tanker_closed:
  "calculate_tanker_emissions m w n =
     [(''CO2'', 262.9991694 * (43 * w / 1000000 * m + 3649297.05 / 1000000 * m) * n),
      (''CH4'', 0.293135661 * (43 * w / 1000000 * m + 3649297.05 / 1000000 * m) * n),
      (''N2O'', 0.006037729 * (43 * w / 1000000 * m + 3649297.05 / 1000000 * m) * n)]"
  by (simp add: calculate_tanker_emissions_def emissions_factors_tanker_def Let_def)

lemma fuelused_closed:
  "calculate_fuelused_emissions mo mt = Inr
     [(''CO2'', mo * 0.0005439 * 9670.93 + mt * (138700 / 5600000) * 12747.98),
      (''CH4'', mo * 0.0005439 * 100.419 + mt * (138700 / 5600000) * 109.519),
      (''N2O'', mo * 0.0005439 * 0.162 + mt * (138700 / 5600000) * 0.233)]"
  by (simp add: calculate_fuelused_emissions_def emissions_factors_def
      emissions_factors_diesel_def emissions_factors_resid_def subscript_def Let_def)

lemma diesel_closed:
  "calculate_emissions_from_diesel g =
     [(''CO2'', g * 138700 / 1000000 * 12747.98),
      (''CH4'', g * 138700 / 1000000 * 109.519),
      (''N2O'', g * 138700 / 1000000 * 0.233)]"
  by (simp add: calculate_emissions_from_diesel_def emissions_factors_diesel_def Let_def)


text \<open>
  Claim C9. For every input, the record returned by the truck, the tanker, the
  fuel-production and the diesel-production calculator has exactly the keys CO2, CH4 and
  N2O, each once; the fuel-production calculator, whose table lookups could raise, always
  returns a record.
\<close>

theorem leg_records_key_set:
  "keys (calculate_truck_emissions miles cargo quantity) = pollutants
   \<and> is_dict (calculate_truck_emissions miles cargo quantity)
   \<and> keys (calculate_tanker_emissions miles' cargo' tankers) = pollutants
   \<and> is_dict (calculate_tanker_emissions miles' cargo' tankers)
   \<and> (\<exists>d. calculate_fuelused_emissions miles_ocean_tanker miles_truck = Inr d
          \<and> keys d = pollutants \<and> is_dict d)
   \<and> keys (calculate_emissions_from_diesel gallons) = pollutants
   \<and> is_dict (calculate_emissions_from_diesel gallons)"
  unfolding truck_closed tanker_closed fuelused_closed diesel_closed
  by (simp add: keys_def is_dict_def pollutants_def)

subsection \<open>Sign of the results, over floats with a range\<close>

text \<open>
  At the documented example the two models of the truck calculator agree.
\<close>

lemma truck_fp_example:
  "calculate_truck_emissions_fp (Fin 1000) (Fin 20) (Fin 5)
     = map (\<lambda>(p, v). (p, Fin v)) (calculate_truck_emissions 1000 20 5)"
  by (simp add: calculate_truck_emissions_fp_def calculate_truck_emissions_def
      emissions_factors_truck_def leg_total_fp_def
      fl_def overflow_threshold_def underflow_threshold_def)



















section \<open>Dictionaries\<close>

lemma keys_map_of: "p \<in> keys d \<longleftrightarrow> map_of d p \<noteq> None"
  by (simp add: keys_def map_of_eq_None_iff)


section \<open>The Sum aggregator\<close>

text \<open>
  One pass of the inner loop over a dict, seen through lookups; then all passes, with the
  running total generalised.
\<close>

lemma map_of_add_amount:
  "map_of (add_amount (p, a) t) =
     (map_of t)(p \<mapsto> (case map_of t p of None \<Rightarrow> a | Some v \<Rightarrow> v + a))"
  by (simp add: add_amount_def update_conv' split: option.split)

lemma map_of_fold_add_amount:
  "distinct (map fst d) \<Longrightarrow>
   map_of (fold add_amount d t) q =
     (case map_of d q of
        None \<Rightarrow> map_of t q
      | Some a \<Rightarrow> Some (case map_of t q of None \<Rightarrow> a | Some v \<Rightarrow> v + a))"
proof (induction d arbitrary: t)
  case Nil
  then show ?case by simp
next
  case (Cons x d)
  obtain p a where x: "x = (p, a)" by (cases x)
  from Cons.prems x have notin: "map_of d p = None" and dist: "distinct (map fst d)"
    by (auto simp: map_of_eq_None_iff)
  show ?case
    using notin by (auto simp: x Cons.IH [OF dist] map_of_add_amount split: option.split)
qed

lemma map_of_fold_dicts:
  "\<forall>d \<in> set ds. distinct (map fst d) \<Longrightarrow>
   map_of (fold (\<lambda>emissions total. fold add_amount emissions total) ds t) q =
     (case map_of t q of
        None \<Rightarrow> (if \<exists>d \<in> set ds. q \<in> keys d
                 then Some (\<Sum>d \<leftarrow> filter (\<lambda>d. q \<in> keys d) ds. the (map_of d q)) else None)
      | Some v \<Rightarrow> Some (v + (\<Sum>d \<leftarrow> filter (\<lambda>d. q \<in> keys d) ds. the (map_of d q))))"
proof (induction ds arbitrary: t)
  case Nil
  then show ?case by (simp split: option.split)
next
  case (Cons d ds)
  then have d: "distinct (map fst d)" and ds: "\<forall>d \<in> set ds. distinct (map fst d)"
    by simp_all
  show ?case
    by (auto simp: Cons.IH [OF ds] map_of_fold_add_amount [OF d] keys_map_of
        split: option.split)
qed

lemma sum_emissions_lookup:
  "\<forall>d \<in> set ds. is_dict d \<Longrightarrow>
   map_of (sum_emissions ds) q =
     (if \<exists>d \<in> set ds. q \<in> keys d
      then Some (\<Sum>d \<leftarrow> filter (\<lambda>d. q \<in> keys d) ds. the (map_of d q)) else None)"
  unfolding sum_emissions_def is_dict_def by (simp add: map_of_fold_dicts)

lemma sum_emissions_keys:
  assumes "\<forall>d \<in> set ds. is_dict d"
  shows "keys (sum_emissions ds) = (\<Union>d \<in> set ds. keys d)"
proof -
  have "q \<in> keys (sum_emissions ds) \<longleftrightarrow> q \<in> (\<Union>d \<in> set ds. keys d)" for q
    unfolding keys_map_of [of q "sum_emissions ds"] sum_emissions_lookup [OF assms]
    by auto
  then show ?thesis by blast
qed

lemma distinct_add_amount: "distinct (map fst t) \<Longrightarrow> distinct (map fst (add_amount x t))"
  by (cases x) (simp add: add_amount_def distinct_update split: option.split)

lemma distinct_fold_add_amount:
  "distinct (map fst t) \<Longrightarrow> distinct (map fst (fold add_amount d t))"
  by (induction d arbitrary: t) (simp_all add: distinct_add_amount)

lemma sum_emissions_is_dict: "is_dict (sum_emissions ds)"
proof -
  have "distinct (map fst t) \<Longrightarrow>
        distinct (map fst (fold (\<lambda>emissions total. fold add_amount emissions total) ds t))" for t
    by (induction ds arbitrary: t) (simp_all add: distinct_fold_add_amount)
  then show ?thesis by (simp add: sum_emissions_def is_dict_def)
qed

text \<open>
  Over the store: the loops write to the new object only, so the call leaves the store
  as it was and appends the result of the pure function.
\<close>

lemma store_inner:
  "t < length s \<Longrightarrow>
   fold (\<lambda>item s''. s''[t := add_amount item (s'' ! t)]) items s =
     s[t := fold add_amount items (s ! t)]"
  by (induction items arbitrary: s) simp_all

lemma store_outer:
  "t < length s \<Longrightarrow> \<forall>r \<in> set refs. r < t \<Longrightarrow>
   fold (\<lambda>emissions s'. fold (\<lambda>item s''. s''[t := add_amount item (s'' ! t)]) (s' ! emissions) s')
     refs s =
   s[t := fold (\<lambda>emissions total. fold add_amount emissions total) (map ((!) s) refs) (s ! t)]"
proof (induction refs arbitrary: s)
  case Nil
  then show ?case by simp
next
  case (Cons r refs)
  let ?s1 = "s[t := fold add_amount (s ! r) (s ! t)]"
  from Cons.prems have r: "r < t" and rs: "\<forall>r \<in> set refs. r < t" by simp_all
  have len: "t < length ?s1" using Cons.prems(1) by simp
  have same: "map ((!) ?s1) refs = map ((!) s) refs"
    using rs by (auto simp: nth_list_update)
  show ?case
    using Cons.prems(1) r
    by (simp add: store_inner Cons.IH [OF len rs] same)
qed

lemma sum_emissions_store_eq:
  assumes "\<forall>r \<in> set refs. r < length s"
  shows "sum_emissions_store s refs = (s @ [sum_emissions (map ((!) s) refs)], length s)"
proof -
  have same: "map ((!) (s @ [[]])) refs = map ((!) s) refs"
    using assms by (auto simp: nth_append)
  show ?thesis
    using assms
    by (simp add: sum_emissions_store_def Let_def store_outer same sum_emissions_def)
qed

text \<open>
  Claim C5. For every finite sequence of dicts, the key set of \<open>sum_emissions\<close> is the
  union of the key sets, and the value at a key \<open>p\<close> is the sum of the values at \<open>p\<close> over
  exactly the inputs that contain \<open>p\<close> (a key in no input is absent from the result). For
  two records \<open>A\<close>, \<open>B\<close> and \<open>p\<close> in either, the value at \<open>p\<close> is \<open>A[p] + B[p]\<close>, an absent
  entry counting for nothing. The inputs are not mutated: when the arguments are
  references into a store, the store after the call is the store before it, unchanged,
  followed by one new object that holds the result.
\<close>

theorem sum_emissions_union_and_sums:
  assumes "\<forall>d \<in> set ds. is_dict d"
  shows "keys (sum_emissions ds) = (\<Union>d \<in> set ds. keys d)
       \<and> is_dict (sum_emissions ds)
       \<and> (\<forall>p. subscript (sum_emissions ds) p =
             (if \<exists>d \<in> set ds. p \<in> keys d
              then Inr (\<Sum>d \<leftarrow> filter (\<lambda>d. p \<in> keys d) ds. the (map_of d p))
              else Inl KeyError))
       \<and> (is_dict A \<and> is_dict B \<and> p \<in> keys A \<union> keys B \<longrightarrow>
            subscript (sum_emissions [A, B]) p = Inr (contribution A p + contribution B p))
       \<and> ((\<forall>r \<in> set refs. r < length s) \<longrightarrow>
            sum_emissions_store s refs = (s @ [sum_emissions (map ((!) s) refs)], length s))"
proof -
  have two: "subscript (sum_emissions [A, B]) p = Inr (contribution A p + contribution B p)"
    if "is_dict A" "is_dict B" "p \<in> keys A \<union> keys B"
  proof -
    from that have "\<forall>d \<in> set [A, B]. is_dict d" by simp
    from sum_emissions_lookup [OF this, of p] that(3) show ?thesis
      by (auto simp: subscript_def contribution_def keys_map_of)
  qed
  show ?thesis
    using two
    by (simp add: sum_emissions_keys [OF assms] sum_emissions_is_dict
        sum_emissions_store_eq subscript_def sum_emissions_lookup [OF assms])
qed

theorem sum_emissions_union_and_sums_witness:
  "keys (sum_emissions [[(''CO2'', 100), (''NOx'', 50)], [(''CO2'', 200), (''SOx'', 30)]])
     = {''CO2'', ''NOx'', ''SOx''}
   \<and> subscript (sum_emissions [[(''CO2'', 100), (''NOx'', 50)], [(''CO2'', 200), (''SOx'', 30)]])
       ''CO2'' = Inr 300
   \<and> subscript (sum_emissions [[(''CO2'', 100), (''NOx'', 50)], [(''CO2'', 200), (''SOx'', 30)]])
       ''SOx'' = Inr 30
   \<and> subscript (sum_emissions [[(''CO2'', 100), (''NOx'', 50)], [(''CO2'', 200), (''SOx'', 30)]])
       ''CH4'' = Inl KeyError
   \<and> sum_emissions_store [[(''CO2'', 100), (''NOx'', 50)], [(''CO2'', 200), (''SOx'', 30)]] [0, 1]
       = ([[(''CO2'', 100), (''NOx'', 50)], [(''CO2'', 200), (''SOx'', 30)],
           sum_emissions [[(''CO2'', 100), (''NOx'', 50)], [(''CO2'', 200), (''SOx'', 30)]]], 2)"
proof -
  let ?A = "[(''CO2'', 100), (''NOx'', 50)] :: dict"
  let ?B = "[(''CO2'', 200), (''SOx'', 30)] :: dict"
  have dicts: "\<forall>d \<in> set [?A, ?B]. is_dict d" by (simp add: is_dict_def)
  note t = sum_emissions_union_and_sums [OF dicts, of ?A ?B "''SOx''" "[0, 1]" "[?A, ?B]"]
  from t have "keys (sum_emissions [?A, ?B]) = {''CO2'', ''NOx'', ''SOx''}"
    by (auto simp: keys_def)
  moreover from t
  have look: "subscript (sum_emissions [?A, ?B]) p =
      (if \<exists>d \<in> set [?A, ?B]. p \<in> keys d
       then Inr (\<Sum>d \<leftarrow> filter (\<lambda>d. p \<in> keys d) [?A, ?B]. the (map_of d p))
       else Inl KeyError)" for p
    by blast
  have "subscript (sum_emissions [?A, ?B]) ''CO2'' = Inr 300"
    "subscript (sum_emissions [?A, ?B]) ''SOx'' = Inr 30"
    "subscript (sum_emissions [?A, ?B]) ''CH4'' = Inl KeyError"
    unfolding look by (simp_all add: keys_def)
  moreover from t have "sum_emissions_store [?A, ?B] [0, 1]
      = ([?A, ?B, sum_emissions [?A, ?B]], 2)"
    by simp
  ultimately show ?thesis by blast
qed

section \<open>CO2-equivalent conversion\<close>

text \<open>
  The statement "on the documented record the result matches the reference computation
  to within floating-point rounding" fails. The result is \<open>292222272.562324398403\<close> and
  the reference is \<open>292222272.622\<close>: the reference is written with the record's amounts
  rounded to two decimals. The difference is more than a million times \<open>2\<^sup>-\<^sup>5\<^sup>3\<close> of the
  reference, the relative rounding error of one double operation.
\<close>

theorem co2_equivalent_reference_counterexample:
  "calculate_co2_equivalent
     [(''CO2'', 233759086.75851363), (''CH4'', 1922227.9395642178), (''N2O'', 4325.249834421531)]
     = Inr (292222272562324398403 / 10 ^ 12)
   \<and> 1000000 * ((233759086.76 + 1922227.94 * 29.8 + 4325.25 * 273) / 2 ^ 53)
       < (233759086.76 + 1922227.94 * 29.8 + 4325.25 * 273)
         - (292222272562324398403 / 10 ^ 12 :: real)"
  by (simp add: calculate_co2_equivalent_def subscript_def)

text \<open>
  Claim C3, amended. For every record with the keys CO2, CH4 and N2O the conversion
  returns \<open>CO2 * 1 + CH4 * 29.8 + N2O * 273\<close>. On the documented record it returns
  \<open>233759086.75851363 * 1 + 1922227.9395642178 * 29.8 + 4325.249834421531 * 273\<close>, which
  is the reference computation \<open>233759086.76 + 1922227.94 * 29.8 + 4325.25 * 273\<close> less
  \<open>0.059675601597\<close>. (Exact real arithmetic.)
\<close>

theorem co2_equivalent_formula:
  "(subscript d ''CO2'' = Inr co2 \<and> subscript d ''CH4'' = Inr ch4 \<and> subscript d ''N2O'' = Inr n2o
      \<longrightarrow> calculate_co2_equivalent d = Inr (co2 * 1 + ch4 * 29.8 + n2o * 273))
   \<and> calculate_co2_equivalent
        [(''CO2'', 233759086.75851363), (''CH4'', 1922227.9395642178),
         (''N2O'', 4325.249834421531)]
      = Inr (233759086.75851363 * 1 + 1922227.9395642178 * 29.8 + 4325.249834421531 * 273)
   \<and> calculate_co2_equivalent
        [(''CO2'', 233759086.75851363), (''CH4'', 1922227.9395642178),
         (''N2O'', 4325.249834421531)]
      = Inr ((233759086.76 + 1922227.94 * 29.8 + 4325.25 * 273) - 0.059675601597)"
  by (simp add: calculate_co2_equivalent_def subscript_def)

theorem co2_equivalent_formula_witness:
  "calculate_co2_equivalent [(''N2O'', 1), (''CO2'', 2), (''CH4'', 10)] = Inr 573"
  using co2_equivalent_formula [of "[(''N2O'', 1), (''CO2'', 2), (''CH4'', 10)]" 2 10 1]
  by (simp add: subscript_def)

lemma co2_equivalent_cases:
  "(pollutants \<subseteq> keys d \<longrightarrow> (\<exists>x. calculate_co2_equivalent d = Inr x))
   \<and> (\<not> pollutants \<subseteq> keys d \<longrightarrow> calculate_co2_equivalent d = Inl KeyError)"
  by (auto simp: calculate_co2_equivalent_def subscript_def pollutants_def keys_map_of
      split: option.split)

section \<open>Scenario consolidation\<close>

text \<open>
  Error behaviour first. An \<open>add_to\<close> succeeds exactly on a key of the running total and
  keeps the keys of the total, so each loop either fails with \<open>KeyError\<close> at a key that is
  not in the total, or returns a total with the same keys.
\<close>

lemma add_to_fail: "p \<notin> keys t \<Longrightarrow> add_to t p x = Inl KeyError"
  by (simp add: add_to_def subscript_def keys_map_of)

lemma add_to_keys:
  assumes "p \<in> keys t"
  shows "\<exists>t'. add_to t p x = Inr t' \<and> map fst t' = map fst t"
proof -
  from assms obtain v where "map_of t p = Some v" by (auto simp: keys_map_of)
  moreover have "p \<in> set (map fst t)" using assms by (simp add: keys_def)
  ultimately show ?thesis by (simp add: add_to_def subscript_def update_keys)
qed

lemma keys_cong: "map fst t' = map fst t \<Longrightarrow> keys t' = keys t"
  by (metis keys_def list.set_map)

lemma add_record_cases:
  "(keys d \<subseteq> keys t \<longrightarrow> (\<exists>t'. add_record t d = Inr t' \<and> map fst t' = map fst t))
   \<and> (\<not> keys d \<subseteq> keys t \<longrightarrow> add_record t d = Inl KeyError)"
proof (induction d arbitrary: t)
  case Nil
  then show ?case by (simp add: keys_def)
next
  case (Cons x d)
  obtain p a where x: "x = (p, a)" by (cases x)
  have kd: "keys ((p, a) # d) = insert p (keys d)" by (simp add: keys_def)
  show ?case
  proof (cases "p \<in> keys t")
    case False
    then show ?thesis by (simp add: x kd add_to_fail)
  next
    case True
    then obtain t1 where t1: "add_to t p a = Inr t1" "map fst t1 = map fst t"
      using add_to_keys by blast
    from t1(2) have "keys t1 = keys t" by (rule keys_cong)
    with Cons.IH [of t1] t1 True show ?thesis by (simp add: x kd)
  qed
qed

lemma add_units_cases:
  "((\<forall>r \<in> set rs. keys r \<subseteq> keys t) \<longrightarrow> (\<exists>t'. add_units t rs = Inr t' \<and> map fst t' = map fst t))
   \<and> (\<not> (\<forall>r \<in> set rs. keys r \<subseteq> keys t) \<longrightarrow> add_units t rs = Inl KeyError)"
proof (induction rs arbitrary: t)
  case Nil
  then show ?case by simp
next
  case (Cons r rs)
  show ?case
  proof (cases "keys r \<subseteq> keys t")
    case False
    then show ?thesis using add_record_cases [of r t] by simp
  next
    case True
    then obtain t1 where t1: "add_record t r = Inr t1" "map fst t1 = map fst t"
      using add_record_cases [of r t] by blast
    from t1(2) have "keys t1 = keys t" by (rule keys_cong)
    with Cons.IH [of t1] t1 True show ?thesis by simp
  qed
qed

lemma add_additional_cases:
  "''CO2'' \<in> keys t \<Longrightarrow>
   ((\<forall>r. Record r \<in> snd ` set a \<longrightarrow> keys r \<subseteq> keys t)
      \<longrightarrow> (\<exists>t'. add_additional t a = Inr t' \<and> map fst t' = map fst t))
   \<and> (\<not> (\<forall>r. Record r \<in> snd ` set a \<longrightarrow> keys r \<subseteq> keys t)
      \<longrightarrow> add_additional t a = Inl KeyError)"
proof (induction a arbitrary: t)
  case Nil
  then show ?case by simp
next
  case (Cons x a)
  obtain k v where x: "x = (k, v)" by (cases x)
  show ?case
  proof (cases v)
    case (Scalar y)
    from Cons.prems obtain t1 where t1: "add_to t ''CO2'' y = Inr t1" "map fst t1 = map fst t"
      using add_to_keys by blast
    from t1(2) have k1: "keys t1 = keys t" by (rule keys_cong)
    with Cons.prems have "''CO2'' \<in> keys t1" by simp
    from Cons.IH [OF this] t1 k1 show ?thesis by (simp add: x Scalar)
  next
    case (Record r)
    show ?thesis
    proof (cases "keys r \<subseteq> keys t")
      case False
      then have "add_additional t (x # a) = Inl KeyError"
        using add_record_cases [of r t] by (simp add: x Record)
      moreover have "\<not> (\<forall>r. Record r \<in> snd ` set (x # a) \<longrightarrow> keys r \<subseteq> keys t)"
        using False by (auto simp: x Record)
      ultimately show ?thesis by simp
    next
      case True
      then obtain t1 where t1: "add_record t r = Inr t1" "map fst t1 = map fst t"
        using add_record_cases [of r t] by blast
      from t1(2) have k1: "keys t1 = keys t" by (rule keys_cong)
      with Cons.prems have "''CO2'' \<in> keys t1" by simp
      from Cons.IH [OF this] t1 k1 True show ?thesis by (auto simp: x Record)
    qed
  qed
qed

lemma keys_initial: "keys [(''CO2'', 0::real), (''CH4'', 0), (''N2O'', 0)] = pollutants"
  by (simp add: keys_def pollutants_def)

lemma consolidate_cases:
  "((\<forall>r \<in> snd ` set transport. keys r \<subseteq> pollutants)
      \<and> (\<forall>r. Record r \<in> snd ` set additional \<longrightarrow> keys r \<subseteq> pollutants)
      \<longrightarrow> (\<exists>total. consolidate_scenario_emissions transport additional = Inr total
             \<and> map fst total = [''CO2'', ''CH4'', ''N2O'']))
   \<and> (\<not> ((\<forall>r \<in> snd ` set transport. keys r \<subseteq> pollutants)
      \<and> (\<forall>r. Record r \<in> snd ` set additional \<longrightarrow> keys r \<subseteq> pollutants))
      \<longrightarrow> consolidate_scenario_emissions transport additional = Inl KeyError)"
proof (cases "\<forall>r \<in> snd ` set transport. keys r \<subseteq> pollutants")
  case False
  then have "add_units [(''CO2'', 0), (''CH4'', 0), (''N2O'', 0)] (map snd transport) = Inl KeyError"
    using add_units_cases [of "map snd transport" "[(''CO2'', 0), (''CH4'', 0), (''N2O'', 0)]"]
    unfolding keys_initial by simp
  with False show ?thesis by (simp add: consolidate_scenario_emissions_def)
next
  case True
  then obtain t1 where t1:
    "add_units [(''CO2'', 0), (''CH4'', 0), (''N2O'', 0)] (map snd transport) = Inr t1"
    "map fst t1 = [''CO2'', ''CH4'', ''N2O'']"
    using add_units_cases [of "map snd transport" "[(''CO2'', 0), (''CH4'', 0), (''N2O'', 0)]"]
    unfolding keys_initial by auto
  have k1: "keys t1 = pollutants"
    using t1(2) by (metis keys_def list.set_map pollutants_def list.simps(15) empty_set)
  then have co2: "''CO2'' \<in> keys t1" by (simp add: pollutants_def)
  from add_additional_cases [OF co2, of additional] True t1 show ?thesis
    unfolding k1 by (auto simp: consolidate_scenario_emissions_def)
qed

text \<open>The values, for well-formed records with keys among those of the running total.\<close>

lemma update_distinct_map:
  "distinct (map fst t) \<Longrightarrow> p \<in> keys t \<Longrightarrow>
   AList.update p w t = map (\<lambda>(k, v). (k, if k = p then w else v)) t"
proof (induction t)
  case Nil
  then show ?case by (simp add: keys_def)
next
  case (Cons x t)
  obtain k v where x: "x = (k, v)" by (cases x)
  show ?case
  proof (cases "k = p")
    case True
    with Cons.prems have "p \<notin> fst ` set t" by (simp add: x)
    then have "map (\<lambda>(k, v). (k, if k = p then w else v)) t = t"
      by (intro map_idI) force
    with True show ?thesis by (simp add: x)
  next
    case False
    with Cons.prems have "distinct (map fst t)" "p \<in> keys t" by (auto simp: x keys_def)
    with Cons.IH False show ?thesis by (simp add: x)
  qed
qed

lemma add_to_value:
  assumes "distinct (map fst t)" "p \<in> keys t"
  shows "add_to t p x = Inr (map (\<lambda>(k, v). (k, if k = p then v + x else v)) t)"
proof -
  from assms(2) obtain v where v: "map_of t p = Some v" by (auto simp: keys_map_of)
  have "map (\<lambda>(k, v'). (k, if k = p then v + x else v')) t
      = map (\<lambda>(k, v'). (k, if k = p then v' + x else v')) t"
  proof (rule map_cong [OF refl])
    fix e assume e: "e \<in> set t"
    have uniq: "b = v" if "(p, b) \<in> set t" for b
      using that assms(1) v by (metis map_of_is_SomeI option.inject)
    obtain k v' where "e = (k, v')" by (cases e)
    with e uniq show "(case e of (k, v') \<Rightarrow> (k, if k = p then v + x else v'))
        = (case e of (k, v') \<Rightarrow> (k, if k = p then v' + x else v'))"
      by auto
  qed
  with v show ?thesis
    by (simp add: add_to_def subscript_def update_distinct_map [OF assms])
qed

lemma contribution_Cons:
  "contribution ((p, a) # d) k = (if k = p then a else contribution d k)"
  by (simp add: contribution_def)

lemma contribution_absent: "p \<notin> keys d \<Longrightarrow> contribution d p = 0"
  by (simp add: contribution_def keys_map_of)

lemma add_record_value:
  "distinct (map fst t) \<Longrightarrow> is_dict d \<Longrightarrow> keys d \<subseteq> keys t \<Longrightarrow>
   add_record t d = Inr (map (\<lambda>(k, v). (k, v + contribution d k)) t)"
proof (induction d arbitrary: t)
  case Nil
  then show ?case by (simp add: contribution_def)
next
  case (Cons x d)
  obtain p a where x: "x = (p, a)" by (cases x)
  let ?t1 = "map (\<lambda>(k, v). (k, if k = p then v + a else v)) t"
  from Cons.prems have p: "p \<in> keys t" and d: "is_dict d" "keys d \<subseteq> keys t"
    and notin: "p \<notin> keys d"
    by (auto simp: x keys_def is_dict_def)
  have fst1: "map fst ?t1 = map fst t" by (induction t) auto
  have 1: "distinct (map fst ?t1)" "keys d \<subseteq> keys ?t1"
    unfolding fst1 keys_cong [OF fst1] by (rule Cons.prems(1), rule d(2))
  have "add_record t (x # d) = add_record ?t1 d"
    by (simp add: x add_to_value [OF Cons.prems(1) p])
  also have "\<dots> = Inr (map (\<lambda>(k, v). (k, v + contribution d k)) ?t1)"
    by (rule Cons.IH [OF 1(1) d(1) 1(2)])
  also have "map (\<lambda>(k, v). (k, v + contribution d k)) ?t1
      = map (\<lambda>(k, v). (k, v + contribution (x # d) k)) t"
    using contribution_absent [OF notin] by (auto simp: x contribution_Cons)
  finally show ?case .
qed

lemma add_units_value:
  "distinct (map fst t) \<Longrightarrow> \<forall>r \<in> set rs. is_dict r \<and> keys r \<subseteq> keys t \<Longrightarrow>
   add_units t rs = Inr (map (\<lambda>(k, v). (k, v + (\<Sum>r \<leftarrow> rs. contribution r k))) t)"
proof (induction rs arbitrary: t)
  case Nil
  then show ?case by simp
next
  case (Cons r rs)
  let ?t1 = "map (\<lambda>(k, v). (k, v + contribution r k)) t"
  have fst1: "map fst ?t1 = map fst t" by (induction t) auto
  from Cons.prems have r: "is_dict r" "keys r \<subseteq> keys t" by simp_all
  have 1: "distinct (map fst ?t1)" "\<forall>r \<in> set rs. is_dict r \<and> keys r \<subseteq> keys ?t1"
    unfolding fst1 keys_cong [OF fst1] using Cons.prems by simp_all
  have "add_units t (r # rs) = add_units ?t1 rs"
    by (simp add: add_record_value [OF Cons.prems(1) r])
  also have "\<dots> = Inr (map (\<lambda>(k, v). (k, v + (\<Sum>r \<leftarrow> rs. contribution r k))) ?t1)"
    by (rule Cons.IH [OF 1])
  also have "map (\<lambda>(k, v). (k, v + (\<Sum>r \<leftarrow> rs. contribution r k))) ?t1
      = map (\<lambda>(k, v). (k, v + (\<Sum>r \<leftarrow> r # rs. contribution r k))) t"
    by (auto simp: add.assoc)
  finally show ?case .
qed

lemma add_additional_value:
  "distinct (map fst t) \<Longrightarrow> ''CO2'' \<in> keys t \<Longrightarrow>
   \<forall>r. Record r \<in> snd ` set a \<longrightarrow> is_dict r \<and> keys r \<subseteq> keys t \<Longrightarrow>
   add_additional t a =
     Inr (map (\<lambda>(k, v). (k, v + (\<Sum>x \<leftarrow> a. pollutant_wise (snd x) k))) t)"
proof (induction a arbitrary: t)
  case Nil
  then show ?case by simp
next
  case (Cons x a)
  obtain n e where x: "x = (n, e)" by (cases x)
  let ?t1 = "map (\<lambda>(k, v). (k, v + pollutant_wise e k)) t"
  have fst1: "map fst ?t1 = map fst t" by (induction t) auto
  have 1: "distinct (map fst ?t1)" "''CO2'' \<in> keys ?t1"
    "\<forall>r. Record r \<in> snd ` set a \<longrightarrow> is_dict r \<and> keys r \<subseteq> keys ?t1"
    unfolding fst1 keys_cong [OF fst1] using Cons.prems by simp_all
  have step: "add_additional t (x # a) = add_additional ?t1 a"
  proof (cases e)
    case (Scalar y)
    have "add_additional t (x # a)
        = add_additional (map (\<lambda>(k, v). (k, if k = ''CO2'' then v + y else v)) t) a"
      by (simp add: x Scalar add_to_value [OF Cons.prems(1,2)])
    also have "map (\<lambda>(k, v). (k, if k = ''CO2'' then v + y else v)) t = ?t1"
      by (auto simp: Scalar)
    finally show ?thesis .
  next
    case (Record r)
    with Cons.prems(3) have r: "is_dict r" "keys r \<subseteq> keys t" by (auto simp: x)
    show ?thesis
      by (simp add: x Record add_record_value [OF Cons.prems(1) r])
  qed
  also have "\<dots> = Inr (map (\<lambda>(k, v). (k, v + (\<Sum>x \<leftarrow> a. pollutant_wise (snd x) k))) ?t1)"
    by (rule Cons.IH [OF 1])
  also have "map (\<lambda>(k, v). (k, v + (\<Sum>x \<leftarrow> a. pollutant_wise (snd x) k))) ?t1
      = map (\<lambda>(k, v). (k, v + (\<Sum>x \<leftarrow> x # a. pollutant_wise (snd x) k))) t"
    by (auto simp: add.assoc x)
  finally show ?case .
qed

lemma consolidate_value:
  assumes "\<forall>r \<in> snd ` set transport. is_dict r \<and> keys r \<subseteq> pollutants"
      and "\<forall>r. Record r \<in> snd ` set additional \<longrightarrow> is_dict r \<and> keys r \<subseteq> pollutants"
  shows "consolidate_scenario_emissions transport additional =
     Inr (map (\<lambda>p. (p, (\<Sum>r \<leftarrow> map snd transport. contribution r p)
                       + (\<Sum>v \<leftarrow> map snd additional. pollutant_wise v p)))
            [''CO2'', ''CH4'', ''N2O''])"
proof -
  let ?t0 = "[(''CO2'', 0::real), (''CH4'', 0), (''N2O'', 0)]"
  let ?t1 = "map (\<lambda>(k, v). (k, v + (\<Sum>r \<leftarrow> map snd transport. contribution r k))) ?t0"
  have d0: "distinct (map fst ?t0)" by simp
  have u: "add_units ?t0 (map snd transport) = Inr ?t1"
    using assms(1) by (intro add_units_value [OF d0]) (simp add: keys_initial)
  have d1: "distinct (map fst ?t1)" by simp
  have k1: "keys ?t1 = pollutants" by (simp add: keys_def pollutants_def)
  have c1: "''CO2'' \<in> keys ?t1" by (simp add: keys_def)
  have a: "add_additional ?t1 additional =
      Inr (map (\<lambda>(k, v). (k, v + (\<Sum>x \<leftarrow> additional. pollutant_wise (snd x) k))) ?t1)"
    using assms(2) unfolding k1 [symmetric] by (intro add_additional_value [OF d1 c1])
  have "consolidate_scenario_emissions transport additional = add_additional ?t1 additional"
    by (simp only: consolidate_scenario_emissions_def u sum.case)
  also note a
  also have "map (\<lambda>(k, v). (k, v + (\<Sum>x \<leftarrow> additional. pollutant_wise (snd x) k))) ?t1
      = map (\<lambda>p. (p, (\<Sum>r \<leftarrow> map snd transport. contribution r p)
                       + (\<Sum>v \<leftarrow> map snd additional. pollutant_wise v p)))
            [''CO2'', ''CH4'', ''N2O'']"
    by (simp add: comp_def del: pollutant_wise.simps)
  finally show ?thesis .
qed

text \<open>
  Claim C2. For every transport mapping of pollutant records and every additional
  mapping of bare numbers and nested pollutant records (a pollutant record being a dict
  whose keys are among CO2, CH4, N2O), consolidation returns one record with the three
  keys in which each pollutant is the sum of what every transport record and every nested
  record contributes to it, and every bare number is added to CO2 only. The documented
  example yields CO2 65, CH4 1.5, N2O 0.15.
\<close>

theorem consolidation_policy:
  assumes "\<forall>r \<in> snd ` set transport. is_dict r \<and> keys r \<subseteq> pollutants"
      and "\<forall>r. Record r \<in> snd ` set additional \<longrightarrow> is_dict r \<and> keys r \<subseteq> pollutants"
  shows "consolidate_scenario_emissions transport additional =
           Inr [(''CO2'', (\<Sum>r \<leftarrow> map snd transport. contribution r ''CO2'')
                          + (\<Sum>v \<leftarrow> map snd additional. pollutant_wise v ''CO2'')),
                (''CH4'', (\<Sum>r \<leftarrow> map snd transport. contribution r ''CH4'')
                          + (\<Sum>v \<leftarrow> map snd additional. pollutant_wise v ''CH4'')),
                (''N2O'', (\<Sum>r \<leftarrow> map snd transport. contribution r ''N2O'')
                          + (\<Sum>v \<leftarrow> map snd additional. pollutant_wise v ''N2O''))]
       \<and> consolidate_scenario_emissions
           [(''A'', [(''CO2'', 10), (''CH4'', 1), (''N2O'', 0.1)])]
           [(''solar'', Scalar 50), (''diesel'', Record [(''CO2'', 5), (''CH4'', 0.5), (''N2O'', 0.05)])]
         = Inr [(''CO2'', 65), (''CH4'', 1.5), (''N2O'', 0.15)]"
proof -
  have "consolidate_scenario_emissions
           [(''A'', [(''CO2'', 10), (''CH4'', 1), (''N2O'', 0.1)])]
           [(''solar'', Scalar 50), (''diesel'', Record [(''CO2'', 5), (''CH4'', 0.5), (''N2O'', 0.05)])]
         = Inr [(''CO2'', 65), (''CH4'', 1.5), (''N2O'', 0.15)]"
    by (simp add: consolidate_scenario_emissions_def add_to_def subscript_def)
  with consolidate_value [OF assms] show ?thesis by simp
qed

theorem consolidation_policy_witness:
  "consolidate_scenario_emissions
     [(''A'', [(''CO2'', 10), (''CH4'', 1)]), (''B'', [(''N2O'', 2), (''CO2'', 7)])]
     [(''bess'', Scalar 3), (''diesel'', Record [(''CH4'', 4)]), (''wind'', Scalar 6)]
   = Inr [(''CO2'', 26), (''CH4'', 5), (''N2O'', 2)]"
  using consolidation_policy
    [of "[(''A'', [(''CO2'', 10), (''CH4'', 1)]), (''B'', [(''N2O'', 2), (''CO2'', 7)])]"
        "[(''bess'', Scalar 3), (''diesel'', Record [(''CH4'', 4)]), (''wind'', Scalar 6)]"]
  by (simp add: is_dict_def keys_def pollutants_def contribution_def)

text \<open>
  Claim C10. Consolidation raises \<open>KeyError\<close> exactly when some transport record or some
  nested record of the additional mapping has a key outside CO2, CH4, N2O; it returns a
  record exactly when all their keys are among the three.
\<close>

theorem consolidation_foreign_key_error:
  "(consolidate_scenario_emissions transport additional = Inl KeyError
      \<longleftrightarrow> (\<exists>r \<in> snd ` set transport. \<not> keys r \<subseteq> pollutants)
          \<or> (\<exists>r. Record r \<in> snd ` set additional \<and> \<not> keys r \<subseteq> pollutants))
   \<and> ((\<exists>total. consolidate_scenario_emissions transport additional = Inr total)
      \<longleftrightarrow> (\<forall>r \<in> snd ` set transport. keys r \<subseteq> pollutants)
          \<and> (\<forall>r. Record r \<in> snd ` set additional \<longrightarrow> keys r \<subseteq> pollutants))"
  using consolidate_cases [of transport additional] by auto

theorem consolidation_foreign_key_error_witness:
  "consolidate_scenario_emissions [(''A'', [(''CO2'', 10), (''NOx'', 1)])] [] = Inl KeyError
   \<and> consolidate_scenario_emissions [] [(''solar'', Scalar 5), (''diesel'', Record [(''SOx'', 1)])]
       = Inl KeyError"
  using consolidation_foreign_key_error [of "[(''A'', [(''CO2'', 10), (''NOx'', 1)])]" "[]"]
    consolidation_foreign_key_error
      [of "[]" "[(''solar'', Scalar 5), (''diesel'', Record [(''SOx'', 1)])]"]
  by (simp add: keys_def pollutants_def)

text \<open>
  The statement "consolidation raises a missing-key error on a record that lacks one of
  the three keys" fails: the loops visit the keys a record has, and never ask for one it
  lacks. A record with CO2 alone is consolidated without error.
\<close>

theorem consolidation_missing_key_counterexample:
  "\<not> pollutants \<subseteq> keys [(''CO2'', 10 :: real)]
   \<and> consolidate_scenario_emissions [(''A'', [(''CO2'', 10)])] []
       = Inr [(''CO2'', 10), (''CH4'', 0), (''N2O'', 0)]"
  by (simp add: pollutants_def keys_def consolidate_scenario_emissions_def add_to_def subscript_def)

text \<open>
  Claim C6, amended. The CO2-equivalent conversion raises \<open>KeyError\<close> exactly when its
  record lacks one of CO2, CH4, N2O, and returns a number exactly when all three are
  there. Consolidation does not ask for the three keys: whenever every transport record
  and every nested record has its keys among CO2, CH4, N2O, whether all three or fewer, it
  returns a record.
\<close>

theorem missing_key_errors:
  "(calculate_co2_equivalent d = Inl KeyError \<longleftrightarrow> \<not> pollutants \<subseteq> keys d)
   \<and> ((\<exists>x. calculate_co2_equivalent d = Inr x) \<longleftrightarrow> pollutants \<subseteq> keys d)
   \<and> ((\<forall>r \<in> snd ` set transport. keys r \<subseteq> pollutants)
        \<and> (\<forall>r. Record r \<in> snd ` set additional \<longrightarrow> keys r \<subseteq> pollutants)
      \<longrightarrow> (\<exists>total. consolidate_scenario_emissions transport additional = Inr total))"
proof -
  have "calculate_co2_equivalent d = Inl KeyError \<longleftrightarrow> \<not> pollutants \<subseteq> keys d"
    using co2_equivalent_cases [of d] by auto
  moreover have "(\<exists>x. calculate_co2_equivalent d = Inr x) \<longleftrightarrow> pollutants \<subseteq> keys d"
    using co2_equivalent_cases [of d] by auto
  moreover have "(\<forall>r \<in> snd ` set transport. keys r \<subseteq> pollutants)
        \<and> (\<forall>r. Record r \<in> snd ` set additional \<longrightarrow> keys r \<subseteq> pollutants)
      \<longrightarrow> (\<exists>total. consolidate_scenario_emissions transport additional = Inr total)"
    using consolidate_cases [of transport additional] by blast
  ultimately show ?thesis by blast
qed

theorem missing_key_errors_witness:
  "calculate_co2_equivalent [(''CO2'', 1), (''CH4'', 2)] = Inl KeyError
   \<and> (\<exists>x. calculate_co2_equivalent [(''CO2'', 1), (''CH4'', 2), (''N2O'', 3)] = Inr x)
   \<and> (\<exists>total. consolidate_scenario_emissions [(''A'', [(''CH4'', 1)])]
                 [(''diesel'', Record [(''N2O'', 2)])] = Inr total)"
  using missing_key_errors [of "[(''CO2'', 1), (''CH4'', 2)]"
      "[(''A'', [(''CH4'', 1)])]" "[(''diesel'', Record [(''N2O'', 2)])]"]
    missing_key_errors [of "[(''CO2'', 1), (''CH4'', 2), (''N2O'', 3)]" "[]" "[]"]
  by (simp add: keys_def pollutants_def)

section \<open>Scenario composer\<close>

lemma scenario_error_iff:
  "transportation_scenario_emissions ts tp tw bp be td = Inl ZeroDivisionError
     \<longleftrightarrow> tp = 0 \<or> tw = 0 \<or> be = 0"
  by (auto simp: transportation_scenario_emissions_def py_div_def Let_def)

lemma scenario_value:
  assumes "turbine_power \<noteq> 0" "target_wind \<noteq> 0" "target_bess_energy \<noteq> 0"
  shows "transportation_scenario_emissions target_solar turbine_power target_wind
           target_bess_power target_bess_energy target_diesel =
     (let num_turbines = target_wind / turbine_power;
          wind = num_turbines * 19.8;
          pv = target_solar * 160 / 907185;
          num_bess_units = target_bess_energy / 1240;
          bess = num_bess_units * (18000 / 1000);
          diesel = target_diesel * 6.5 / 2000
      in Inr [(''wind_turbines_transport'', sum_emissions
                 [calculate_tanker_emissions 6900 wind 1,
                  calculate_tanker_emissions 2415 (wind / 2) 2,
                  calculate_truck_emissions 1030 (wind / (num_turbines * 7)) (num_turbines * 7)]),
              (''pv_panels_transport'', sum_emissions
                 [calculate_tanker_emissions 6900 pv 1,
                  calculate_tanker_emissions 2415 (pv / 2) 2,
                  calculate_truck_emissions 1030 (pv / 9) 9]),
              (''bess_units_transport'', sum_emissions
                 [calculate_tanker_emissions 6900 bess 1,
                  calculate_tanker_emissions 2415 (bess / 2) 2,
                  calculate_truck_emissions 100 (bess / num_bess_units) num_bess_units]),
              (''diesel_transport'', sum_emissions
                 [calculate_tanker_emissions 6900 diesel 1,
                  calculate_tanker_emissions 2415 (diesel / 2) 2,
                  calculate_truck_emissions 1030 (diesel / 9) 9])])"
  using assms
  by (simp add: transportation_scenario_emissions_def py_div_def Let_def mult.commute)

text \<open>
  Claim C7. A zero divisor supplied by the caller surfaces as \<open>ZeroDivisionError\<close>: a
  turbine power of 0 makes the composer raise, and the composer raises exactly when the
  turbine power, the wind target or the BESS energy target is 0 (the latter two make the
  vehicle count of a truck leg, a divisor of its cargo, zero); otherwise it returns its
  result. The capacity of one BESS unit is the literal 1240 of the code, not an argument.
\<close>

theorem zero_divisor_raises:
  "(turbine_power = 0 \<longrightarrow>
      transportation_scenario_emissions target_solar turbine_power target_wind
        target_bess_power target_bess_energy target_diesel = Inl ZeroDivisionError)
   \<and> (transportation_scenario_emissions target_solar turbine_power target_wind
        target_bess_power target_bess_energy target_diesel = Inl ZeroDivisionError
      \<longleftrightarrow> turbine_power = 0 \<or> target_wind = 0 \<or> target_bess_energy = 0)
   \<and> ((\<exists>totals. transportation_scenario_emissions target_solar turbine_power target_wind
        target_bess_power target_bess_energy target_diesel = Inr totals)
      \<longleftrightarrow> turbine_power \<noteq> 0 \<and> target_wind \<noteq> 0 \<and> target_bess_energy \<noteq> 0)"
proof -
  have err: "transportation_scenario_emissions target_solar turbine_power target_wind
        target_bess_power target_bess_energy target_diesel = Inl ZeroDivisionError
      \<longleftrightarrow> turbine_power = 0 \<or> target_wind = 0 \<or> target_bess_energy = 0"
    by (rule scenario_error_iff)
  have ok: "\<exists>totals. transportation_scenario_emissions target_solar turbine_power target_wind
        target_bess_power target_bess_energy target_diesel = Inr totals"
    if "turbine_power \<noteq> 0 \<and> target_wind \<noteq> 0 \<and> target_bess_energy \<noteq> 0"
    using that scenario_value [of turbine_power target_wind target_bess_energy]
    by (simp add: Let_def)
  show ?thesis using err ok by auto
qed

theorem zero_divisor_raises_witness:
  "transportation_scenario_emissions 180 0 570 100 3410 5600 = Inl ZeroDivisionError"
  using zero_divisor_raises [of 0 180 570 100 3410 5600] by simp

text \<open>
  Claim C4 says that the composer returns its mapping of four totals for every scenario
  input. The code does not: a scenario without wind (a wind target of 0) or without
  storage (a BESS energy target of 0) makes the vehicle count of that component's truck
  leg zero, and the cargo per vehicle, computed as total weight over vehicle count, is
  \<^verbatim>\<open>0.0 / 0.0\<close>, which raises. The PV and the diesel path divide by the literal 9 and
  accept a target of 0. The theorem evaluates the composer at the example of its
  docstring with the wind target, then the BESS energy target, set to 0, and with the
  solar and diesel targets set to 0.
\<close>

theorem scenario_zero_target_raises:
  "transportation_scenario_emissions 5000 1000 0 500 10000 2000 = Inl ZeroDivisionError
   \<and> transportation_scenario_emissions 5000 1000 20000 500 0 2000 = Inl ZeroDivisionError
   \<and> (\<exists>totals. transportation_scenario_emissions 0 1000 20000 500 10000 0 = Inr totals)"
  by (simp add: transportation_scenario_emissions_def py_div_def)

end
